theory Spec2Isabelle
  imports Main "HOL-Library.Char_ord" "HOL-Library.List_Lexorder" "HOL-Library.Sublist"
begin

section \<open>The Calamares mount module (modules/mount/main.py)\<close>

text \<open>
  A shallow embedding of \<^verbatim>\<open>main.py\<close>. Python strings are \<open>string\<close>; the order on them
  (used by \<^verbatim>\<open>sorted\<close> and \<^verbatim>\<open>list.sort\<close>) is the lexicographic order on character codes.
  Dictionaries with a fixed set of keys are records; a key that the code reads with
  \<^verbatim>\<open>.get\<close> or tests with \<^verbatim>\<open>in\<close> is an \<open>option\<close> field. Exceptions are values of the
  type \<open>error\<close>. Everything outside the process (the mount executor, sub-processes, the
  file system, the mount table, sysfs) is an environment \<open>env\<close> acting on an abstract
  world \<open>'w\<close>; every command and every call of the \<^verbatim>\<open>os\<close> and \<^verbatim>\<open>tempfile\<close> modules that
  the source lets fail can fail in the model. The programs that the module calls are taken
  to be installed, so that calling one gives a status.
\<close>

subsection \<open>Data\<close>

text \<open>One entry of the partition list or of \<^verbatim>\<open>extraMounts\<close>.\<close>

record partition =
  device :: string
  mountPoint :: "string option"
  fs :: "string option"
  options :: "string list option"
  luksMapperName :: "string option"
  claimed :: bool
  fsName :: "string option"
  efi :: bool

text \<open>One entry of the \<^verbatim>\<open>mountOptions\<close> configuration.\<close>

record rule =
  filesystem :: string
  rule_options :: "string list option"
  ssdOptions :: "string list option"
  nvmeOptions :: "string list option"
  hddOptions :: "string list option"

text \<open>One entry of \<^verbatim>\<open>btrfsSubvolumes\<close>: keys \<^verbatim>\<open>mountPoint\<close> and \<^verbatim>\<open>subvolume\<close>.\<close>

record subvol =
  sv_mountPoint :: string
  subvolume :: string

datatype canmount = CanMountBool bool | CanMountStr string

text \<open>Entries of \<^verbatim>\<open>zfsPoolInfo\<close>, \<^verbatim>\<open>zfsInfo\<close> and \<^verbatim>\<open>zfsDatasets\<close>.\<close>

record zfs_pool =
  zp_mountpoint :: string
  zp_poolName :: string
  zp_dsName :: string

record zfs_info =
  zi_mountpoint :: string
  zi_encrypted :: bool
  zi_passphrase :: string

record zfs_dataset =
  zd_mountpoint :: string
  zd_zpool :: string
  zd_dsName :: string
  zd_canMount :: canmount

text \<open>
  The exceptions the module can raise. \<open>PyException\<close> is the plain \<^verbatim>\<open>Exception\<close> raised by
  \<^verbatim>\<open>err\<close>; \<open>KeyError\<close> and \<open>UnboundLocalError\<close> are raised by the interpreter and carry the
  name of the key or variable; \<open>CalledProcessError\<close> (raised by \<^verbatim>\<open>check_call\<close> and by
  \<^verbatim>\<open>host_env_process_output\<close>) and \<open>OSError\<close> (raised by the \<^verbatim>\<open>os\<close> module) carry the
  command or call that failed.
\<close>

datatype cmd =
    Mount string string string string
  | Umount string
  | UmountLazy string
  | Makedirs string
  | Chcon string string
  | Chmod750 string
  | Rmtree string
  | BtrfsSubvolumeCreate string
  | ZpoolImport string string
  | ZfsLoadKey string string
  | ZfsMount string
  | Swapon string
  | Mkdtemp string

datatype error =
    PyException string
  | ZfsException string
  | KeyError string
  | UnboundLocalError string
  | CalledProcessError cmd
  | OSError cmd

subsection \<open>Strings and paths\<close>

definition newline :: char where
  "newline = CHR 0x0A"

text \<open>\<^verbatim>\<open>sep.join(xs)\<close>\<close>

fun join :: "string \<Rightarrow> string list \<Rightarrow> string" where
  "join sep [] = []"
| "join sep [x] = x"
| "join sep (x # y # ys) = x @ sep @ join sep (y # ys)"

text \<open>\<^verbatim>\<open>s.startswith(p)\<close>\<close>

definition startswith :: "string \<Rightarrow> string \<Rightarrow> bool" where
  "startswith s p = (take (length p) s = p)"




text \<open>\<^verbatim>\<open>os.path.basename\<close>: what follows the last slash.\<close>

definition basename :: "string \<Rightarrow> string" where
  "basename p = rev (takeWhile (\<lambda>c. c \<noteq> CHR ''/'') (rev p))"


text \<open>\<^verbatim>\<open>os.path.join(a, *ps)\<close>\<close>

fun os_path_join :: "string \<Rightarrow> string list \<Rightarrow> string" where
  "os_path_join path [] = path"
| "os_path_join path (b # bs) =
     os_path_join
       (if startswith b ''/'' then b
        else if path = [] \<or> last path = CHR ''/'' then path @ b
        else path @ ''/'' @ b) bs"

definition is_digit :: "char \<Rightarrow> bool" where
  "is_digit c = (c \<in> set ''0123456789'')"

text \<open>
  The two substitutions of \<^verbatim>\<open>disk_name_for_partition\<close>. In Python \<^verbatim>\<open>$\<close> matches at the end
  of the string and also just before a newline that ends the string, so the digits are
  looked for in the string without such a newline, which is put back afterwards.
\<close>

definition split_eol :: "string \<Rightarrow> string \<times> string" where
  "split_eol s = (if s \<noteq> [] \<and> last s = newline then (butlast s, [newline]) else (s, []))"

text \<open>\<^verbatim>\<open>re.sub("[0-9]+$", "", name)\<close>\<close>

definition sub_digits :: "string \<Rightarrow> string" where
  "sub_digits s =
     (let (body, eol) = split_eol s
      in rev (dropWhile is_digit (rev body)) @ eol)"

text \<open>\<^verbatim>\<open>re.sub("p[0-9]+$", "", name)\<close>\<close>

definition sub_p_digits :: "string \<Rightarrow> string" where
  "sub_p_digits s =
     (let (body, eol) = split_eol s;
          digits = takeWhile is_digit (rev body);
          rest = rev (dropWhile is_digit (rev body))
      in if digits \<noteq> [] \<and> rest \<noteq> [] \<and> last rest = CHR ''p''
         then butlast rest @ eol else s)"

subsection \<open>Mount option resolver\<close>

definition disk_name_for_partition :: "partition \<Rightarrow> string" where
  "disk_name_for_partition part =
     (let name = basename (device part)
      in if startswith name ''mmcblk'' \<or> startswith name ''nvme''
         then sub_p_digits name
         else sub_digits name)"

text \<open>
  \<^verbatim>\<open>is_ssd_disk\<close>. The argument \<open>sysfs\<close> reads a file: \<open>None\<close> when opening or reading it
  raises, which the \<^verbatim>\<open>except\<close> clause turns into \<^verbatim>\<open>False\<close>.
\<close>

definition is_ssd_disk :: "(string \<Rightarrow> string option) \<Rightarrow> partition \<Rightarrow> bool" where
  "is_ssd_disk sysfs part =
     (let disk_name = disk_name_for_partition part;
          filename = os_path_join ''/sys/block'' [disk_name, ''queue/rotational'']
      in case sysfs filename of
           None \<Rightarrow> False
         | Some content \<Rightarrow> content = [CHR ''0'', newline])"

text \<open>Truth value of an optional string: \<^verbatim>\<open>None\<close> and \<^verbatim>\<open>""\<close> are false.\<close>

definition truthy :: "string option \<Rightarrow> bool" where
  "truthy x = (case x of None \<Rightarrow> False | Some v \<Rightarrow> v \<noteq> [])"

text \<open>\<^verbatim>\<open>d.get(key, [])\<close> for a list-valued key.\<close>

definition get_list :: "'a list option \<Rightarrow> 'a list" where
  "get_list x = (case x of None \<Rightarrow> [] | Some v \<Rightarrow> v)"

text \<open>The device-class additions of lines 114 to 122.\<close>

definition device_class_options :: "(string \<Rightarrow> string option) \<Rightarrow> rule \<Rightarrow> partition \<Rightarrow> string list" where
  "device_class_options sysfs opts part =
     (if is_ssd_disk sysfs part
      then (let name = basename (device part)
            in if startswith name ''nvme''
               then get_list (nvmeOptions opts)
               else get_list (ssdOptions opts))
      else get_list (hddOptions opts))"

definition get_mount_options ::
  "(string \<Rightarrow> string option) \<Rightarrow> string \<Rightarrow> rule list option \<Rightarrow> partition \<Rightarrow> string option
     \<Rightarrow> error + string" where
  "get_mount_options sysfs fstype mount_options part efi_location =
     (case options part of
        Some explicit \<Rightarrow> Inr (join '','' explicit)
      | None \<Rightarrow>
     (case mount_options of
        None \<Rightarrow> Inr ''defaults''
      | Some rules \<Rightarrow>
          if truthy efi_location \<and> mountPoint part = None
          then Inl (KeyError ''mountPoint'')
          else
            let effective_filesystem =
                  (if truthy efi_location \<and> mountPoint part = efi_location
                   then ''efi'' else fstype);
                found =
                  (case find (\<lambda>x. filesystem x = effective_filesystem) rules of
                     Some r \<Rightarrow> Some r
                   | None \<Rightarrow> find (\<lambda>x. filesystem x = ''default'') rules)
            in case found of
                 None \<Rightarrow> Inr ''defaults''
               | Some opts \<Rightarrow>
                   let option_items =
                         get_list (rule_options opts) @ device_class_options sysfs opts part
                   in if option_items \<noteq> [] then Inr (join '','' option_items)
                      else Inr ''defaults''))"

subsection \<open>Environment and state\<close>

text \<open>
  What the module reads: the keys of the job configuration (\<^verbatim>\<open>mountOptions\<close>,
  \<^verbatim>\<open>extraMounts\<close>, \<^verbatim>\<open>btrfsSubvolumes\<close>, \<^verbatim>\<open>btrfsSwapSubvol\<close>) and of global storage
  (\<^verbatim>\<open>partitions\<close>, \<^verbatim>\<open>firmwareType\<close>, \<^verbatim>\<open>efiSystemPartition\<close>, \<^verbatim>\<open>partitionChoices\<close>,
  \<^verbatim>\<open>zfsPoolInfo\<close>, \<^verbatim>\<open>zfsInfo\<close>, \<^verbatim>\<open>zfsDatasets\<close>). \<open>None\<close> is a missing key. None of the
  keys read from global storage is written by the module.
\<close>

record config =
  cfg_partitions :: "partition list option"
  cfg_mountOptions :: "rule list option"
  cfg_extraMounts :: "partition list option"
  cfg_firmwareType :: "string option"
  cfg_efiSystemPartition :: "string option"
  cfg_btrfsSubvolumes :: "subvol list option"
  cfg_btrfsSwapSubvol :: "string option"
  cfg_partitionChoices :: "(string \<times> string) list option"
  cfg_zfsPoolInfo :: "zfs_pool list option"
  cfg_zfsInfo :: "zfs_info list option"
  cfg_zfsDatasets :: "zfs_dataset list option"

text \<open>Values written with \<^verbatim>\<open>libcalamares.globalstorage.insert\<close>.\<close>

datatype gsval =
    GS_String string
  | GS_Subvolumes "subvol list"
  | GS_OptionsList "(string \<times> string) list"
  | GS_Mounts "partition list"

text \<open>
  The environment. \<open>exec\<close> runs an external command or a call of the \<^verbatim>\<open>os\<close> module in a
  world and gives its status (0 for success) and the new world; \<open>ismount\<close>,
  \<open>path_exists\<close> and \<open>read_file\<close> are \<^verbatim>\<open>os.path.ismount\<close>, \<^verbatim>\<open>os.path.exists\<close> and
  reading a file; \<open>mkdtemp\<close> creates a temporary directory from a prefix, or fails. Two functions
  of the interpreter are taken from the environment as they are: \<open>unicode_lower\<close> is
  \<^verbatim>\<open>str.lower\<close> on a string that has a character outside ASCII, and \<open>exception_text\<close> is
  \<^verbatim>\<open>str(e)\<close> for an exception whose text the interpreter or the operating system makes.
\<close>

record 'w env =
  exec :: "'w \<Rightarrow> cmd \<Rightarrow> int \<times> 'w"
  ismount :: "'w \<Rightarrow> string \<Rightarrow> bool"
  path_exists :: "'w \<Rightarrow> string \<Rightarrow> bool"
  read_file :: "'w \<Rightarrow> string \<Rightarrow> string option"
  mkdtemp :: "'w \<Rightarrow> string \<Rightarrow> string option \<times> 'w"
  unicode_lower :: "string \<Rightarrow> string"
  exception_text :: "error \<Rightarrow> string"

text \<open>
  What a run does to the outside, in order: a command with its status, or a question to the
  file system with its answer.
\<close>

datatype event =
    Ran cmd int
  | IsMount string bool
  | PathExists string bool

text \<open>
  The state of a run: the world, the trace of events so far, the two lists that \<^verbatim>\<open>run\<close>
  creates and passes by reference (\<^verbatim>\<open>active_mounts\<close>, \<^verbatim>\<open>mount_options_list\<close>, whose
  entries are the pairs of \<^verbatim>\<open>mountpoint\<close> and \<^verbatim>\<open>option_string\<close>), and the inserts into
  global storage, in order.
\<close>

record 'w state =
  world :: 'w
  trace :: "event list"
  active_mounts :: "string list"
  mount_options_list :: "(string \<times> string) list"
  globalstorage :: "(string \<times> gsval) list"

definition run_cmd :: "'w env \<Rightarrow> cmd \<Rightarrow> 'w state \<Rightarrow> int \<times> 'w state" where
  "run_cmd env c s =
     (let (rc, w) = exec env (world s) c
      in (rc, s\<lparr>world := w, trace := trace s @ [Ran c rc]\<rparr>))"

text \<open>
  A call whose outcome is not looked at: \<^verbatim>\<open>subprocess.call\<close> of \<^verbatim>\<open>chcon\<close> inside
  \<^verbatim>\<open>try\<close> and \<^verbatim>\<open>except: pass\<close>, and the second \<^verbatim>\<open>umount\<close> of \<^verbatim>\<open>err\<close>.
\<close>

definition os_call :: "'w env \<Rightarrow> cmd \<Rightarrow> 'w state \<Rightarrow> 'w state" where
  "os_call env c s = snd (run_cmd env c s)"

text \<open>
  \<^verbatim>\<open>os.makedirs\<close>, \<^verbatim>\<open>os.chmod\<close> and the removal of a temporary directory when its
  \<^verbatim>\<open>with\<close> block is left: a failure raises \<^verbatim>\<open>OSError\<close>.
\<close>

definition os_checked :: "'w env \<Rightarrow> cmd \<Rightarrow> 'w state \<Rightarrow> error option \<times> 'w state" where
  "os_checked env c s =
     (let (rc, s1) = run_cmd env c s
      in (if rc \<noteq> 0 then Some (OSError c) else None, s1))"

text \<open>\<^verbatim>\<open>os.path.ismount\<close> and \<^verbatim>\<open>os.path.exists\<close>; the question and its answer are logged.\<close>

definition os_path_ismount :: "'w env \<Rightarrow> string \<Rightarrow> 'w state \<Rightarrow> bool \<times> 'w state" where
  "os_path_ismount env p s =
     (let answer = ismount env (world s) p
      in (answer, s\<lparr>trace := trace s @ [IsMount p answer]\<rparr>))"

definition os_path_exists :: "'w env \<Rightarrow> string \<Rightarrow> 'w state \<Rightarrow> bool \<times> 'w state" where
  "os_path_exists env p s =
     (let answer = path_exists env (world s) p
      in (answer, s\<lparr>trace := trace s @ [PathExists p answer]\<rparr>))"

definition gs_insert :: "string \<Rightarrow> gsval \<Rightarrow> 'w state \<Rightarrow> 'w state" where
  "gs_insert k v s = s\<lparr>globalstorage := globalstorage s @ [(k, v)]\<rparr>"


text \<open>\<^verbatim>\<open>tempfile.mkdtemp\<close> and \<^verbatim>\<open>tempfile.TemporaryDirectory\<close>\<close>

definition make_temp_dir :: "'w env \<Rightarrow> string \<Rightarrow> 'w state \<Rightarrow> (error + string) \<times> 'w state" where
  "make_temp_dir env pre s =
     (let (made, w) = mkdtemp env (world s) pre
      in (case made of None \<Rightarrow> Inl (OSError (Mkdtemp pre)) | Some d \<Rightarrow> Inr d,
          s\<lparr>world := w\<rparr>))"
subsection \<open>Btrfs subvolume planner\<close>

definition default_subvolumes :: "subvol list" where
  "default_subvolumes =
     [\<lparr>sv_mountPoint = ''/'', subvolume = ''/@''\<rparr>,
      \<lparr>sv_mountPoint = ''/home'', subvolume = ''/@home''\<rparr>]"

text \<open>Lines 150 and 151: the mount points of the partitions, without the missing ones and the root.\<close>

definition non_root_partition_mounts :: "partition list \<Rightarrow> string list" where
  "non_root_partition_mounts partitions =
     filter (\<lambda>m. m \<noteq> ''/'') (List.map_filter mountPoint partitions)"

text \<open>The condition of the comprehension of lines 154 to 160.\<close>

definition keep_subvolume :: "string list \<Rightarrow> subvol \<Rightarrow> bool" where
  "keep_subvolume mounts s =
     (sv_mountPoint s = ''/'' \<or>
      \<not> list_ex (\<lambda>m. m \<noteq> [] \<and> (sv_mountPoint s = m \<or> startswith (sv_mountPoint s) (m @ ''/'')))
           mounts)"

definition swap_is_file :: "config \<Rightarrow> bool" where
  "swap_is_file cfg =
     (case cfg_partitionChoices cfg of
        None \<Rightarrow> False
      | Some swap_choice \<Rightarrow> map_of swap_choice ''swap'' = Some ''file'')"

definition get_btrfs_subvolumes ::
  "config \<Rightarrow> partition list \<Rightarrow> 'w state \<Rightarrow> subvol list \<times> 'w state" where
  "get_btrfs_subvolumes cfg partitions s =
     (let configured =
            (case cfg_btrfsSubvolumes cfg of
               None \<Rightarrow> default_subvolumes
             | Some [] \<Rightarrow> default_subvolumes
             | Some (x # xs) \<Rightarrow> x # xs);
          btrfs_subvolumes =
            filter (keep_subvolume (non_root_partition_mounts partitions)) configured
      in if swap_is_file cfg
         then (let swap_subvol =
                     (case cfg_btrfsSwapSubvol cfg of None \<Rightarrow> ''/@swap'' | Some v \<Rightarrow> v)
               in (btrfs_subvolumes @ [\<lparr>sv_mountPoint = ''/swap'', subvolume = swap_subvol\<rparr>],
                   gs_insert ''btrfsSwapSubvol'' (GS_String swap_subvol) s))
         else (btrfs_subvolumes, s))"

subsection \<open>ZFS pool mount protocol\<close>

text \<open>The loop of lines 186 to 189 does not stop at a match: the last match is the one kept.\<close>

definition find_zfs_pool :: "zfs_pool list \<Rightarrow> string \<Rightarrow> (string \<times> string) option" where
  "find_zfs_pool zfs_pool_list mp =
     foldl (\<lambda>found zfs_pool.
              if zp_mountpoint zfs_pool = mp
              then Some (zp_poolName zfs_pool, zp_dsName zfs_pool) else found)
           None zfs_pool_list"

text \<open>Lines 199 to 204: \<open>Some passphrase\<close> when \<^verbatim>\<open>encrypt\<close> has become true.\<close>

definition find_passphrase :: "zfs_info list \<Rightarrow> string \<Rightarrow> string option" where
  "find_passphrase zfs_info_list mp =
     foldl (\<lambda>found zfs_info.
              if zi_mountpoint zfs_info = mp \<and> zi_encrypted zfs_info
              then Some (zi_passphrase zfs_info) else found)
           None zfs_info_list"

definition can_mount :: "zfs_dataset \<Rightarrow> bool" where
  "can_mount dataset =
     (zd_canMount dataset = CanMountStr ''noauto'' \<or> zd_canMount dataset = CanMountBool True)"

text \<open>The loop of lines 222 to 228.\<close>

fun mount_datasets :: "'w env \<Rightarrow> zfs_dataset list \<Rightarrow> 'w state \<Rightarrow> error option \<times> 'w state" where
  "mount_datasets env [] s = (None, s)"
| "mount_datasets env (dataset # rest) s =
     (if can_mount dataset
      then (let (rc, s1) = run_cmd env (ZfsMount (zd_zpool dataset @ ''/'' @ zd_dsName dataset)) s
            in if rc \<noteq> 0 then (Some (ZfsException ''Failed to set zfs mountpoint''), s1)
               else mount_datasets env rest s1)
      else mount_datasets env rest s)"

text \<open>Lines 213 to 233.\<close>

definition zfs_mount_step ::
  "'w env \<Rightarrow> config \<Rightarrow> string \<Rightarrow> string \<Rightarrow> string \<Rightarrow> 'w state \<Rightarrow> error option \<times> 'w state" where
  "zfs_mount_step env cfg mp pool_name ds_name s =
     (if mp = ''/''
      then (case cfg_zfsDatasets cfg of
              None \<Rightarrow> (Some (ZfsException ''Internal error mounting zfs datasets''), s)
            | Some [] \<Rightarrow> (Some (ZfsException ''Internal error mounting zfs datasets''), s)
            | Some (d # ds) \<Rightarrow> mount_datasets env (sort_key zd_mountpoint (d # ds)) s)
      else (let (rc, s1) = run_cmd env (ZfsMount (pool_name @ ''/'' @ ds_name)) s
            in if rc \<noteq> 0 then (Some (ZfsException ''Failed to set zfs mountpoint''), s1)
               else (None, s1)))"

definition mount_zfs ::
  "'w env \<Rightarrow> config \<Rightarrow> string \<Rightarrow> partition \<Rightarrow> 'w state \<Rightarrow> error option \<times> 'w state" where
  "mount_zfs env cfg root_mount_point part s =
     (case cfg_zfsPoolInfo cfg of
        None \<Rightarrow> (Some (ZfsException ''Internal error mounting zfs datasets''), s)
      | Some [] \<Rightarrow> (Some (ZfsException ''Internal error mounting zfs datasets''), s)
      | Some (p # ps) \<Rightarrow>
     (case mountPoint part of
        None \<Rightarrow> (Some (KeyError ''mountPoint''), s)
      | Some mp \<Rightarrow>
     (case find_zfs_pool (p # ps) mp of
        None \<Rightarrow> (Some (UnboundLocalError ''pool_name''), s)
      | Some (pool_name, ds_name) \<Rightarrow>
          let (rc, s1) = run_cmd env (ZpoolImport root_mount_point pool_name) s
          in if rc \<noteq> 0 then (Some (ZfsException ''Failed to import zpool''), s1)
             else (case find_passphrase (get_list (cfg_zfsInfo cfg)) mp of
                     None \<Rightarrow> zfs_mount_step env cfg mp pool_name ds_name s1
                   | Some passphrase \<Rightarrow>
                       let (rc2, s2) = run_cmd env (ZfsLoadKey pool_name passphrase) s1
                       in if rc2 \<noteq> 0 then (Some (ZfsException ''Failed to unlock zpool''), s2)
                          else zfs_mount_step env cfg mp pool_name ds_name s2))))"

subsection \<open>Rollback\<close>

text \<open>
  The loop of \<^verbatim>\<open>err\<close> over \<^verbatim>\<open>sorted(active_mounts, reverse=True)\<close>: for a path that is
  a mount point, \<^verbatim>\<open>umount -v\<close> and, when its status is not 0, \<^verbatim>\<open>umount -v -l\<close>.
\<close>

fun err_loop :: "'w env \<Rightarrow> string list \<Rightarrow> 'w state \<Rightarrow> 'w state" where
  "err_loop env [] s = s"
| "err_loop env (tmp_dir # rest) s =
     (let (mounted, s0) = os_path_ismount env tmp_dir s
      in err_loop env rest
           (if mounted
            then (let (rc, s1) = run_cmd env (Umount tmp_dir) s0
                  in if rc \<noteq> 0 then os_call env (UmountLazy tmp_dir) s1 else s1)
            else s0))"

text \<open>
  \<^verbatim>\<open>err\<close> always raises \<^verbatim>\<open>Exception(error_message)\<close>; the list it is given is read,
  never changed.
\<close>

definition err :: "'w env \<Rightarrow> string \<Rightarrow> string list \<Rightarrow> 'w state \<Rightarrow> error \<times> 'w state" where
  "err env error_message am s = (PyException error_message, err_loop env (rev (sort am)) s)"

text \<open>An exception that leaves the function where it was raised.\<close>

definition raising :: "error \<times> 'w state \<Rightarrow> error option \<times> 'w state" where
  "raising r = (Some (fst r), snd r)"

subsection \<open>Partition mount protocol\<close>














subsection \<open>Mount orchestrator\<close>












definition initial_state :: "'w \<Rightarrow> 'w state" where
  "initial_state w =
     \<lparr>world = w, trace = [], active_mounts = [], mount_options_list = [], globalstorage = []\<rparr>"




subsection \<open>Observations on a run\<close>

text \<open>The targets of the mount commands that returned 0, in the order issued.\<close>

definition mount_target :: "event \<Rightarrow> string option" where
  "mount_target ev =
     (case ev of
        Ran c rc \<Rightarrow> (case c of Mount d t f opts \<Rightarrow> if rc = 0 then Some t else None | _ \<Rightarrow> None)
      | _ \<Rightarrow> None)"

definition mounted_targets :: "event list \<Rightarrow> string list" where
  "mounted_targets tr = List.map_filter mount_target tr"


text \<open>The targets of the plain \<^verbatim>\<open>umount -v\<close> commands, in the order issued.\<close>

definition umount_target :: "event \<Rightarrow> string option" where
  "umount_target ev =
     (case ev of
        Ran c rc \<Rightarrow> (case c of Umount t \<Rightarrow> Some t | _ \<Rightarrow> None)
      | _ \<Rightarrow> None)"

definition umount_targets :: "event list \<Rightarrow> string list" where
  "umount_targets tr = List.map_filter umount_target tr"


text \<open>
  The events of one pass of the rollback over a list of paths, in this order. For each
  path: the question whether it is a mount point; when it is, \<^verbatim>\<open>umount -v\<close> of it; and
  when that failed, \<^verbatim>\<open>umount -v -l\<close> of it. \<open>rollback_step\<close> takes the events of one path
  from the front of a trace and gives the rest.
\<close>

fun rollback_step :: "string \<Rightarrow> event list \<Rightarrow> event list option" where
  "rollback_step d (IsMount p mounted # rest) =
     (if p \<noteq> d then None
      else if \<not> mounted then Some rest
      else (case rest of
              Ran c rc # rest1 \<Rightarrow>
                if c \<noteq> Umount d then None
                else if rc = 0 then Some rest1
                else (case rest1 of
                        Ran c2 rc2 # rest2 \<Rightarrow> if c2 = UmountLazy d then Some rest2 else None
                      | _ \<Rightarrow> None)
            | _ \<Rightarrow> None))"
| "rollback_step d _ = None"

fun rollback_pass :: "string list \<Rightarrow> event list \<Rightarrow> bool" where
  "rollback_pass [] tr = (tr = [])"
| "rollback_pass (d # ds) tr =
     (case rollback_step d tr of
        None \<Rightarrow> False
      | Some rest \<Rightarrow> rollback_pass ds rest)"

text \<open>A step that leaves the two lists of the run and global storage as they are.\<close>

definition same_lists :: "'w state \<Rightarrow> 'w state \<Rightarrow> bool" where
  "same_lists s s' =
     (active_mounts s' = active_mounts s \<and> mount_options_list s' = mount_options_list s
      \<and> globalstorage s' = globalstorage s)"






subsection \<open>A mount-table environment and sample inputs\<close>

text \<open>
  An environment whose world is the list of mounted targets. A mount fails (status 32)
  when its device is in \<open>bad\<close>; \<^verbatim>\<open>umount\<close> fails on a target that is not mounted. It
  serves to run the model on concrete inputs.
\<close>

definition table_exec :: "string list \<Rightarrow> string list \<Rightarrow> cmd \<Rightarrow> int \<times> string list" where
  "table_exec bad w c =
     (case c of
        Mount d t f opts \<Rightarrow> (if d \<in> set bad then (32, w) else (0, w @ [t]))
      | Umount t \<Rightarrow> (if t \<in> set w then (0, remove1 t w) else (32, w))
      | UmountLazy t \<Rightarrow> (0, removeAll t w)
      | _ \<Rightarrow> (0, w))"

definition table_env :: "string list \<Rightarrow> string list env" where
  "table_env bad =
     \<lparr>exec = table_exec bad,
      ismount = (\<lambda>w p. p \<in> set w),
      path_exists = (\<lambda>w p. False),
      read_file = (\<lambda>w p. None),
      mkdtemp = (\<lambda>w pre. (Some (''/tmp/'' @ pre @ ''0''), w)),
      unicode_lower = (\<lambda>s. s),
      exception_text = (\<lambda>e. ''error'')\<rparr>"

definition sample_partition :: "string \<Rightarrow> string \<Rightarrow> string \<Rightarrow> partition" where
  "sample_partition dev mp kind =
     \<lparr>device = dev, mountPoint = Some mp, fs = Some kind, options = None,
      luksMapperName = None, claimed = False, fsName = None, efi = False\<rparr>"

definition sample_config :: "partition list \<Rightarrow> partition list \<Rightarrow> config" where
  "sample_config partitions extra =
     \<lparr>cfg_partitions = Some partitions, cfg_mountOptions = None, cfg_extraMounts = Some extra,
      cfg_firmwareType = None, cfg_efiSystemPartition = None, cfg_btrfsSubvolumes = None,
      cfg_btrfsSwapSubvol = None, cfg_partitionChoices = None, cfg_zfsPoolInfo = None,
      cfg_zfsInfo = None, cfg_zfsDatasets = None\<rparr>"


text \<open>A Btrfs root and a second partition whose mount fails.\<close>

definition btrfs_config :: config where
  "btrfs_config =
     sample_config
       [sample_partition ''/dev/sda1'' ''/'' ''btrfs'', sample_partition ''/dev/sda2'' ''/data'' ''ext4'']
       []"

text \<open>A swap file is chosen and a partition is mounted at \<^verbatim>\<open>/swap\<close>.\<close>

definition swap_partitions :: "partition list" where
  "swap_partitions =
     [sample_partition ''/dev/sda1'' ''/'' ''btrfs'', sample_partition ''/dev/sda2'' ''/swap'' ''ext4'']"

definition swap_config :: config where
  "swap_config = (sample_config swap_partitions [])\<lparr>cfg_partitionChoices := Some [(''swap'', ''file'')]\<rparr>"

text \<open>A partition with a dedicated \<^verbatim>\<open>/home\<close>, for the default layout.\<close>

definition home_partitions :: "partition list" where
  "home_partitions =
     [sample_partition ''/dev/sda1'' ''/'' ''btrfs'', sample_partition ''/dev/sda2'' ''/home'' ''ext4'']"

text \<open>A pool list without an entry for the root.\<close>

definition zfs_config :: config where
  "zfs_config =
     (sample_config [sample_partition ''/dev/sda1'' ''/'' ''zfs''] [])
       \<lparr>cfg_zfsPoolInfo :=
          Some [\<lparr>zp_mountpoint = ''/data'', zp_poolName = ''tank'', zp_dsName = ''data''\<rparr>]\<rparr>"

text \<open>The rule table of the Btrfs example: base option \<^verbatim>\<open>noatime\<close>, \<^verbatim>\<open>ssd\<close> on an SSD.\<close>

definition btrfs_rules :: "rule list" where
  "btrfs_rules =
     [\<lparr>filesystem = ''btrfs'', rule_options = Some [''noatime''], ssdOptions = Some [''ssd''],
       nvmeOptions = None, hddOptions = None\<rparr>]"

definition sda_not_rotational :: "string \<Rightarrow> string option" where
  "sda_not_rotational f =
     (if f = ''/sys/block/sda/queue/rotational'' then Some [CHR ''0'', newline] else None)"

text \<open>
  EFI firmware without an EFI system partition in global storage, and an \<^verbatim>\<open>exfat\<close>
  partition to be mounted at \<^verbatim>\<open>/boot\<close>.
\<close>

definition efi_exfat_config :: config where
  "efi_exfat_config =
     (sample_config [sample_partition ''/dev/sda1'' ''/boot'' ''exfat''] [])
       \<lparr>cfg_firmwareType := Some ''efi''\<rparr>"

section \<open>Properties\<close>

subsection \<open>Mount option resolver\<close>

text \<open>
  C10. A partition that has the key \<^verbatim>\<open>options\<close> resolves to the comma-join of that list,
  whatever the rule table, the filesystem kind, the EFI location and the rotational state
  of the disk are. For the empty list the result is the empty string, not \<^verbatim>\<open>defaults\<close>.
\<close>

theorem explicit_options_override:
  "get_mount_options sysfs fstype mount_options (part\<lparr>options := Some explicit\<rparr>) efi_location
     = Inr (join '','' explicit)
   \<and> get_mount_options sysfs fstype mount_options (part\<lparr>options := Some []\<rparr>) efi_location
     = Inr []
   \<and> get_mount_options sysfs fstype mount_options (part\<lparr>options := Some []\<rparr>) efi_location
     \<noteq> Inr ''defaults''"
  by (simp add: get_mount_options_def)

theorem explicit_options_override_witness:
  "get_mount_options sda_not_rotational ''btrfs'' (Some btrfs_rules)
     ((sample_partition ''/dev/sda1'' ''/'' ''btrfs'')\<lparr>options := Some [''bind'', ''ro'']\<rparr>) None
     = Inr ''bind,ro''
   \<and> get_mount_options sda_not_rotational ''btrfs'' (Some btrfs_rules)
     ((sample_partition ''/dev/sda1'' ''/'' ''btrfs'')\<lparr>options := Some []\<rparr>) None
     = Inr []"
  using explicit_options_override [where sysfs = sda_not_rotational and fstype = "''btrfs''"
      and mount_options = "Some btrfs_rules"
      and part = "sample_partition ''/dev/sda1'' ''/'' ''btrfs''"
      and explicit = "[''bind'', ''ro'']" and efi_location = None]
  by simp



text \<open>
  C7. The precedence of the resolver. An explicit option list is returned comma-joined,
  whatever else is given. Otherwise, without a rule table the result is \<^verbatim>\<open>defaults\<close>; with
  one, the rule of the effective kind (\<^verbatim>\<open>efi\<close> for the partition at the EFI location, else
  the given kind) is used, else the rule named \<^verbatim>\<open>default\<close>, else the result is
  \<^verbatim>\<open>defaults\<close>; and a rule whose assembled option list is empty gives \<^verbatim>\<open>defaults\<close>.
\<close>

theorem resolver_precedence:
  fixes rules :: "rule list"
  defines "kind \<equiv> \<lambda>part fstype efi_location.
             (if truthy efi_location \<and> mountPoint part = efi_location then ''efi'' else fstype)"
  defines "assembled \<equiv> \<lambda>sysfs r part.
             (let items = get_list (rule_options r) @ device_class_options sysfs r part
              in if items = [] then ''defaults'' else join '','' items)"
  shows "(options part = Some explicit \<longrightarrow>
            get_mount_options sysfs fstype mount_options part efi_location
              = Inr (join '','' explicit))
       \<and> (options part = None \<and> mount_options = None \<longrightarrow>
            get_mount_options sysfs fstype mount_options part efi_location = Inr ''defaults'')
       \<and> (options part = None \<and> mount_options = Some rules
            \<and> \<not> (truthy efi_location \<and> mountPoint part = None) \<longrightarrow>
            (\<forall>r. find (\<lambda>x. filesystem x = kind part fstype efi_location) rules = Some r \<longrightarrow>
               get_mount_options sysfs fstype mount_options part efi_location
                 = Inr (assembled sysfs r part))
          \<and> (\<forall>r. find (\<lambda>x. filesystem x = kind part fstype efi_location) rules = None
                  \<and> find (\<lambda>x. filesystem x = ''default'') rules = Some r \<longrightarrow>
               get_mount_options sysfs fstype mount_options part efi_location
                 = Inr (assembled sysfs r part))
          \<and> (find (\<lambda>x. filesystem x = kind part fstype efi_location) rules = None
                  \<and> find (\<lambda>x. filesystem x = ''default'') rules = None \<longrightarrow>
               get_mount_options sysfs fstype mount_options part efi_location
                 = Inr ''defaults''))"
proof (intro conjI impI allI)
  assume "options part = Some explicit"
  then show "get_mount_options sysfs fstype mount_options part efi_location
              = Inr (join '','' explicit)"
    by (simp add: get_mount_options_def)
next
  assume "options part = None \<and> mount_options = None"
  then show "get_mount_options sysfs fstype mount_options part efi_location = Inr ''defaults''"
    by (simp add: get_mount_options_def)
next
  fix r
  assume a: "options part = None \<and> mount_options = Some rules
            \<and> \<not> (truthy efi_location \<and> mountPoint part = None)"
    and f: "find (\<lambda>x. filesystem x = kind part fstype efi_location) rules = Some r"
  from a have k: "(truthy efi_location \<and> mountPoint part = None) = False"
    by blast
  from a f show "get_mount_options sysfs fstype mount_options part efi_location
                 = Inr (assembled sysfs r part)"
    unfolding kind_def assembled_def
    by (simp add: get_mount_options_def Let_def k)
next
  fix r
  assume a: "options part = None \<and> mount_options = Some rules
            \<and> \<not> (truthy efi_location \<and> mountPoint part = None)"
    and f: "find (\<lambda>x. filesystem x = kind part fstype efi_location) rules = None
                  \<and> find (\<lambda>x. filesystem x = ''default'') rules = Some r"
  from a have k: "(truthy efi_location \<and> mountPoint part = None) = False"
    by blast
  from a f show "get_mount_options sysfs fstype mount_options part efi_location
                 = Inr (assembled sysfs r part)"
    unfolding kind_def assembled_def
    by (simp add: get_mount_options_def Let_def k)
next
  assume a: "options part = None \<and> mount_options = Some rules
            \<and> \<not> (truthy efi_location \<and> mountPoint part = None)"
    and f: "find (\<lambda>x. filesystem x = kind part fstype efi_location) rules = None
                  \<and> find (\<lambda>x. filesystem x = ''default'') rules = None"
  from a have k: "(truthy efi_location \<and> mountPoint part = None) = False"
    by blast
  from a f show "get_mount_options sysfs fstype mount_options part efi_location
                 = Inr ''defaults''"
    unfolding kind_def
    by (simp add: get_mount_options_def Let_def k)
qed

theorem resolver_precedence_witness:
  "get_mount_options sda_not_rotational ''ext4'' (Some btrfs_rules)
     ((sample_partition ''/dev/sda1'' ''/'' ''ext4'')\<lparr>options := Some [''bind'']\<rparr>) None = Inr ''bind''
   \<and> get_mount_options sda_not_rotational ''ext4'' None
     (sample_partition ''/dev/sda1'' ''/'' ''ext4'') None = Inr ''defaults''
   \<and> get_mount_options sda_not_rotational ''ext4'' (Some btrfs_rules)
     (sample_partition ''/dev/sda1'' ''/'' ''ext4'') None = Inr ''defaults''"
  using resolver_precedence [where part = "(sample_partition ''/dev/sda1'' ''/'' ''ext4'')\<lparr>options := Some [''bind'']\<rparr>"
      and explicit = "[''bind'']" and sysfs = sda_not_rotational and fstype = "''ext4''"
      and mount_options = "Some btrfs_rules" and efi_location = None]
    resolver_precedence [where part = "sample_partition ''/dev/sda1'' ''/'' ''ext4''"
      and sysfs = sda_not_rotational and fstype = "''ext4''"
      and mount_options = "None" and efi_location = None]
    resolver_precedence [where part = "sample_partition ''/dev/sda1'' ''/'' ''ext4''"
      and sysfs = sda_not_rotational and fstype = "''ext4''" and rules = btrfs_rules
      and mount_options = "Some btrfs_rules" and efi_location = None]
  by (simp add: sample_partition_def btrfs_rules_def truthy_def)

subsection \<open>ZFS pool mount protocol\<close>

lemma find_zfs_pool_none:
  "\<forall>zp \<in> set pools. zp_mountpoint zp \<noteq> mp \<Longrightarrow>
     foldl (\<lambda>found zfs_pool. if zp_mountpoint zfs_pool = mp
              then Some (zp_poolName zfs_pool, zp_dsName zfs_pool) else found) acc pools = acc"
  by (induction pools arbitrary: acc) auto

text \<open>
  C8. The claim asks for the \<^verbatim>\<open>ZfsException\<close> with the internal-error message whenever the
  pool list has no entry for the mount point of the partition. The source raises it for a
  missing or empty pool list only. For a non-empty list without a match the loop of lines
  186 to 189 leaves \<^verbatim>\<open>pool_name\<close> unassigned, and evaluating the arguments of the
  \<^verbatim>\<open>zpool import\<close> call raises \<^verbatim>\<open>UnboundLocalError\<close>, which the \<^verbatim>\<open>except\<close> clause for
  \<^verbatim>\<open>CalledProcessError\<close> does not catch; no command is issued.
\<close>

theorem zfs_pool_without_match:
  assumes "cfg_zfsPoolInfo cfg = Some pools" and "pools \<noteq> []"
    and "mountPoint part = Some mp"
    and "\<forall>zp \<in> set pools. zp_mountpoint zp \<noteq> mp"
  shows "mount_zfs env cfg root_mount_point part s = (Some (UnboundLocalError ''pool_name''), s)"
proof -
  from assms(2) obtain p ps where ps: "pools = p # ps" by (cases pools) auto
  have "find_zfs_pool pools mp = None"
    unfolding find_zfs_pool_def using assms(4) by (rule find_zfs_pool_none)
  then show ?thesis
    using assms(1,3) ps by (simp add: mount_zfs_def)
qed

theorem zfs_pool_without_match_witness:
  "mount_zfs (table_env []) zfs_config ''/tmp/r'' (sample_partition ''/dev/sda1'' ''/'' ''zfs'')
     (initial_state []) = (Some (UnboundLocalError ''pool_name''), initial_state [])"
  using zfs_pool_without_match [where cfg = zfs_config
      and pools = "[\<lparr>zp_mountpoint = ''/data'', zp_poolName = ''tank'', zp_dsName = ''data''\<rparr>]"
      and part = "sample_partition ''/dev/sda1'' ''/'' ''zfs''" and mp = "''/''"
      and env = "table_env []" and root_mount_point = "''/tmp/r''" and s = "initial_state []"]
  by (simp add: zfs_config_def sample_config_def sample_partition_def)

subsection \<open>Btrfs subvolume planner\<close>

lemma set_non_root_partition_mounts:
  "set (non_root_partition_mounts partitions) =
     {m. m \<noteq> ''/'' \<and> (\<exists>p \<in> set partitions. mountPoint p = Some m)}"
  by (force simp add: non_root_partition_mounts_def List.map_filter_def image_iff)

lemma keep_subvolume_iff:
  "keep_subvolume (non_root_partition_mounts partitions) sv \<longleftrightarrow>
     sv_mountPoint sv = ''/'' \<or>
     \<not> (\<exists>p \<in> set partitions. \<exists>m. mountPoint p = Some m \<and> m \<noteq> [] \<and> m \<noteq> ''/'' \<and>
          (sv_mountPoint sv = m \<or> startswith (sv_mountPoint sv) (m @ ''/'')))"
  unfolding keep_subvolume_def list_ex_iff set_non_root_partition_mounts
  by blast

text \<open>
  C6, as the source has it. The planner returns the configured entries (the default layout
  when none or an empty list is configured), in their order, without those whose mount
  point equals the non-empty mount point of a non-root partition or starts with it followed
  by a slash; entries mounted at \<^verbatim>\<open>/\<close> are always kept. When swap is a file, the entry for
  \<^verbatim>\<open>/swap\<close> is appended after the filter and is not subject to it. The witness is the
  default layout with a dedicated \<^verbatim>\<open>/home\<close>: only the root entry remains.
\<close>

theorem planner_output:
  defines "configured \<equiv> \<lambda>cfg.
             (case cfg_btrfsSubvolumes cfg of
                None \<Rightarrow> default_subvolumes
              | Some [] \<Rightarrow> default_subvolumes
              | Some (x # xs) \<Rightarrow> x # xs)"
  defines "under_dedicated \<equiv> \<lambda>partitions sv.
             \<exists>p \<in> set partitions. \<exists>m. mountPoint p = Some m \<and> m \<noteq> [] \<and> m \<noteq> ''/'' \<and>
               (sv_mountPoint sv = m \<or> startswith (sv_mountPoint sv) (m @ ''/''))"
  shows "fst (get_btrfs_subvolumes cfg partitions s) =
           filter (\<lambda>sv. sv_mountPoint sv = ''/'' \<or> \<not> under_dedicated partitions sv) (configured cfg)
           @ (if swap_is_file cfg
              then [\<lparr>sv_mountPoint = ''/swap'',
                     subvolume = (case cfg_btrfsSwapSubvol cfg of None \<Rightarrow> ''/@swap'' | Some v \<Rightarrow> v)\<rparr>]
              else [])"
  unfolding configured_def under_dedicated_def keep_subvolume_iff [symmetric]
  by (simp add: get_btrfs_subvolumes_def Let_def)

theorem planner_output_witness:
  "fst (get_btrfs_subvolumes (sample_config home_partitions []) home_partitions (initial_state ()))
     = [\<lparr>sv_mountPoint = ''/'', subvolume = ''/@''\<rparr>]"
  using planner_output [where cfg = "sample_config home_partitions []"
      and partitions = home_partitions and s = "initial_state ()"]
  by (simp add: sample_config_def home_partitions_def sample_partition_def default_subvolumes_def
      swap_is_file_def startswith_def)

text \<open>
  C6, as stated, fails when swap is a file and a partition is mounted at \<^verbatim>\<open>/swap\<close>: the
  output has a subvolume whose mount point is that of a dedicated non-root partition.
\<close>

theorem planner_keeps_swap_entry:
  "fst (get_btrfs_subvolumes swap_config swap_partitions (initial_state ())) =
     [\<lparr>sv_mountPoint = ''/'', subvolume = ''/@''\<rparr>,
      \<lparr>sv_mountPoint = ''/home'', subvolume = ''/@home''\<rparr>,
      \<lparr>sv_mountPoint = ''/swap'', subvolume = ''/@swap''\<rparr>]
   \<and> map mountPoint swap_partitions = [Some ''/'', Some ''/swap'']"
  by (simp add: get_btrfs_subvolumes_def swap_config_def swap_partitions_def sample_config_def
      sample_partition_def default_subvolumes_def swap_is_file_def keep_subvolume_def
      non_root_partition_mounts_def List.map_filter_def startswith_def Let_def)



subsection \<open>What each step leaves unchanged\<close>

lemma mounted_targets_append [simp]:
  "mounted_targets (xs @ ys) = mounted_targets xs @ mounted_targets ys"
  by (simp add: mounted_targets_def map_filter_def)

lemma mounted_targets_simps [simp]:
  "mounted_targets [] = []"
  "mounted_targets (IsMount p b # tr) = mounted_targets tr"
  "mounted_targets (PathExists p b # tr) = mounted_targets tr"
  "mounted_targets (Ran c rc # tr) =
     (case c of Mount d t f opts \<Rightarrow> if rc = 0 then t # mounted_targets tr else mounted_targets tr
      | _ \<Rightarrow> mounted_targets tr)"
  by (simp_all add: mounted_targets_def map_filter_def mount_target_def split: cmd.splits)

lemma umount_targets_append [simp]:
  "umount_targets (xs @ ys) = umount_targets xs @ umount_targets ys"
  by (simp add: umount_targets_def map_filter_def)

lemma umount_targets_simps [simp]:
  "umount_targets [] = []"
  "umount_targets (IsMount p b # tr) = umount_targets tr"
  "umount_targets (PathExists p b # tr) = umount_targets tr"
  "umount_targets (Ran c rc # tr) =
     (case c of Umount t \<Rightarrow> t # umount_targets tr | _ \<Rightarrow> umount_targets tr)"
  by (simp_all add: umount_targets_def map_filter_def umount_target_def split: cmd.splits)

lemma run_cmd_frame [simp]:
  "active_mounts (snd (run_cmd env c s)) = active_mounts s"
  "mount_options_list (snd (run_cmd env c s)) = mount_options_list s"
  "globalstorage (snd (run_cmd env c s)) = globalstorage s"
  "trace (snd (run_cmd env c s)) = trace s @ [Ran c (fst (run_cmd env c s))]"
  by (simp_all add: run_cmd_def case_prod_beta)

lemma os_call_frame [simp]:
  "active_mounts (os_call env c s) = active_mounts s"
  "mount_options_list (os_call env c s) = mount_options_list s"
  "globalstorage (os_call env c s) = globalstorage s"
  "trace (os_call env c s) = trace s @ [Ran c (fst (run_cmd env c s))]"
  by (simp_all add: os_call_def)

lemma os_checked_simps [simp]:
  "snd (os_checked env c s) = snd (run_cmd env c s)"
  "fst (os_checked env c s) = (if fst (run_cmd env c s) \<noteq> 0 then Some (OSError c) else None)"
  by (simp_all add: os_checked_def case_prod_beta)

lemma os_path_ismount_frame [simp]:
  "active_mounts (snd (os_path_ismount env p s)) = active_mounts s"
  "mount_options_list (snd (os_path_ismount env p s)) = mount_options_list s"
  "globalstorage (snd (os_path_ismount env p s)) = globalstorage s"
  "trace (snd (os_path_ismount env p s)) = trace s @ [IsMount p (fst (os_path_ismount env p s))]"
  by (simp_all add: os_path_ismount_def Let_def)

lemma os_path_exists_frame [simp]:
  "active_mounts (snd (os_path_exists env p s)) = active_mounts s"
  "mount_options_list (snd (os_path_exists env p s)) = mount_options_list s"
  "globalstorage (snd (os_path_exists env p s)) = globalstorage s"
  "trace (snd (os_path_exists env p s)) = trace s @ [PathExists p (fst (os_path_exists env p s))]"
  by (simp_all add: os_path_exists_def Let_def)

lemma make_temp_dir_frame [simp]:
  "active_mounts (snd (make_temp_dir env pre s)) = active_mounts s"
  "mount_options_list (snd (make_temp_dir env pre s)) = mount_options_list s"
  "globalstorage (snd (make_temp_dir env pre s)) = globalstorage s"
  "trace (snd (make_temp_dir env pre s)) = trace s"
  by (simp_all add: make_temp_dir_def case_prod_beta)

lemma gs_insert_frame [simp]:
  "active_mounts (gs_insert k v s) = active_mounts s"
  "mount_options_list (gs_insert k v s) = mount_options_list s"
  "globalstorage (gs_insert k v s) = globalstorage s @ [(k, v)]"
  "trace (gs_insert k v s) = trace s"
  "world (gs_insert k v s) = world s"
  by (simp_all add: gs_insert_def)

lemma same_lists_refl [simp]: "same_lists s s"
  by (simp add: same_lists_def)

lemma same_lists_trans: "same_lists s t \<Longrightarrow> same_lists t u \<Longrightarrow> same_lists s u"
  by (simp add: same_lists_def)

subsection \<open>The rollback\<close>

text \<open>The events of the rollback for one path, as \<^verbatim>\<open>err\<close> issues them.\<close>

lemma rollback_step_err_loop:
  fixes env :: "'w env" and s :: "'w state"
  shows "\<exists>tr. trace (err_loop env [d] s) = trace s @ tr
            \<and> (\<forall>rest. rollback_step d (tr @ rest) = Some rest)
            \<and> mounted_targets tr = []
            \<and> umount_targets tr = (if fst (os_path_ismount env d s) then [d] else [])"
proof (cases "fst (os_path_ismount env d s)")
  case False
  then show ?thesis
    by (intro exI [of _ "[IsMount d False]"]) (simp add: case_prod_beta)
next
  case m: True
  let ?s0 = "snd (os_path_ismount env d s)"
  show ?thesis
  proof (cases "fst (run_cmd env (Umount d) ?s0) = 0")
    case True
    with m show ?thesis
      by (intro exI [of _ "[IsMount d True, Ran (Umount d) 0]"]) (simp add: case_prod_beta)
  next
    case False
    let ?s1 = "snd (run_cmd env (Umount d) ?s0)"
    from m False show ?thesis
      by (intro exI [of _ "[IsMount d True, Ran (Umount d) (fst (run_cmd env (Umount d) ?s0)),
             Ran (UmountLazy d) (fst (run_cmd env (UmountLazy d) ?s1))]"])
        (simp add: case_prod_beta)
  qed
qed

lemma err_loop_Cons:
  "err_loop env (d # ds) s = err_loop env ds (err_loop env [d] s)"
  by (simp add: case_prod_beta)

lemma err_loop_frame [simp]:
  "active_mounts (err_loop env ds s) = active_mounts s"
  "mount_options_list (err_loop env ds s) = mount_options_list s"
  "globalstorage (err_loop env ds s) = globalstorage s"
  by (induction ds arbitrary: s; simp add: case_prod_beta)+

lemma err_loop_trace:
  fixes env :: "'w env" and s :: "'w state"
  shows "\<exists>tr. trace (err_loop env ds s) = trace s @ tr \<and> rollback_pass ds tr
            \<and> mounted_targets tr = [] \<and> subseq (umount_targets tr) ds"
proof (induction ds arbitrary: s)
  case Nil
  then show ?case by simp
next
  case (Cons d ds)
  from rollback_step_err_loop [of env d s] obtain tr1 where
    t1: "trace (err_loop env [d] s) = trace s @ tr1"
    and r1: "\<And>rest. rollback_step d (tr1 @ rest) = Some rest"
    and m1: "mounted_targets tr1 = []"
    and u1: "umount_targets tr1 = (if fst (os_path_ismount env d s) then [d] else [])"
    by blast
  from Cons.IH [of "err_loop env [d] s"] obtain tr where
    t: "trace (err_loop env ds (err_loop env [d] s)) = trace (err_loop env [d] s) @ tr"
    and r: "rollback_pass ds tr" and m: "mounted_targets tr = []"
    and u: "subseq (umount_targets tr) ds"
    by blast
  have "subseq (umount_targets (tr1 @ tr)) (d # ds)"
    using u u1 by (auto intro: list_emb_Cons)
  moreover have "err_loop env (d # ds) s = err_loop env ds (err_loop env [d] s)"
    by (rule err_loop_Cons)
  ultimately show ?case
    using t1 r1 m1 t r m by (intro exI [of _ "tr1 @ tr"]) simp
qed

lemma err_frame [simp]:
  "active_mounts (snd (err env msg am s)) = active_mounts s"
  "mount_options_list (snd (err env msg am s)) = mount_options_list s"
  "globalstorage (snd (err env msg am s)) = globalstorage s"
  "fst (err env msg am s) = PyException msg"
  "mounted_targets (trace (snd (err env msg am s))) = mounted_targets (trace s)"
  using err_loop_trace [of env "rev (sort am)" s]
  by (auto simp add: err_def)

lemma raising_simps [simp]:
  "fst (raising r) = Some (fst r)"
  "snd (raising r) = snd r"
  by (simp_all add: raising_def)


subsection \<open>C1: the order of the rollback\<close>







end
